theory Spec2Isabelle
  imports Main "HOL-Library.Char_ord"
begin

section \<open>Regular expressions of the request pattern\<close>

text \<open>
  The request pattern of \<^verbatim>\<open>src/index.js\<close> (lines 24-31) is a JavaScript regular
  expression. Its meaning is the one of the ECMAScript backtracking matcher: alternatives
  are tried in priority order (a greedy quantifier first tries to consume, a lazy one first
  tries to stop) and the first complete match wins. The constructs below are the ones
  the six fragments of the pattern use.
\<close>

datatype cls =
    Dot
  | Ranges "(char \<times> char) list"

fun in_cls :: "cls \<Rightarrow> char \<Rightarrow> bool" where
  "in_cls Dot c = (c \<noteq> CHR 0x0A \<and> c \<noteq> CHR 0x0D)"
| "in_cls (Ranges rs) c = list_ex (\<lambda>(lo, hi). lo \<le> c \<and> c \<le> hi) rs"

text \<open>
  A pattern is a list of nodes, matched left to right:
  \<^item> \<open>Bos\<close> and \<open>Eos\<close> are the anchors \<^verbatim>\<open>^\<close> and \<^verbatim>\<open>$\<close> (no multiline flag);
  \<^item> \<open>Chr c\<close> is a literal character, \<open>One k\<close> one character of a class;
  \<^item> \<open>Plus k\<close> and \<open>Star k\<close> are the greedy \<^verbatim>\<open>k+\<close> and \<^verbatim>\<open>k*\<close>,
    \<open>StarLazy k\<close> is the lazy \<^verbatim>\<open>k*?\<close>;
  \<^item> \<open>Opt b\<close> is the greedy optional group \<^verbatim>\<open>(?:b)?\<close>, \<open>Alt a b\<close> is \<^verbatim>\<open>a|b\<close>;
  \<^item> \<open>Grp n b\<close> is the named group \<^verbatim>\<open>(?<n>b)\<close>; while its body is matched, the
    node \<open>Close n st\<close> marks its end, with \<open>st\<close> the input that was left where the
    group began, so that the captured text is the part of \<open>st\<close> consumed since.
  A class is \<^verbatim>\<open>.\<close> (any character but a line terminator) or a set of ranges.
\<close>

datatype node =
    Bos
  | Eos
  | Chr char
  | One cls
  | Plus cls
  | Star cls
  | StarLazy cls
  | Opt "node list"
  | Alt "node list" "node list"
  | Grp string "node list"
  | Close string string

text \<open>
  The matcher takes the nodes still to match, the index reached in the input, the rest of
  the input and the captures made so far. It terminates because every call either has
  smaller nodes (by \<open>nssize\<close>) or the same nodes and a shorter input.
\<close>

fun nsize :: "node \<Rightarrow> nat" where
  "nsize (Plus k) = 2"
| "nsize (Opt b) = Suc (sum_list (map nsize b))"
| "nsize (Alt a b) = Suc (sum_list (map nsize a) + sum_list (map nsize b))"
| "nsize (Grp n b) = Suc (Suc (sum_list (map nsize b)))"
| "nsize _ = 1"

definition nssize :: "node list \<Rightarrow> nat" where
  "nssize ns = sum_list (map nsize ns)"

type_synonym caps = "(string \<times> string) list"

function (sequential) rmatch :: "node list \<Rightarrow> nat \<Rightarrow> string \<Rightarrow> caps \<Rightarrow> caps option" where
  "rmatch [] i s caps = Some caps"
| "rmatch (Bos # ns) i s caps = (if i = 0 then rmatch ns i s caps else None)"
| "rmatch (Eos # ns) i s caps = (if s = [] then rmatch ns i s caps else None)"
| "rmatch (Chr c # ns) i [] caps = None"
| "rmatch (Chr c # ns) i (x # xs) caps = (if x = c then rmatch ns (Suc i) xs caps else None)"
| "rmatch (One k # ns) i [] caps = None"
| "rmatch (One k # ns) i (x # xs) caps =
     (if in_cls k x then rmatch ns (Suc i) xs caps else None)"
| "rmatch (Plus k # ns) i [] caps = None"
| "rmatch (Plus k # ns) i (x # xs) caps =
     (if in_cls k x then rmatch (Star k # ns) (Suc i) xs caps else None)"
| "rmatch (Star k # ns) i [] caps = rmatch ns i [] caps"
| "rmatch (Star k # ns) i (x # xs) caps =
     (if in_cls k x
      then (case rmatch (Star k # ns) (Suc i) xs caps of
              Some r \<Rightarrow> Some r
            | None \<Rightarrow> rmatch ns i (x # xs) caps)
      else rmatch ns i (x # xs) caps)"
| "rmatch (StarLazy k # ns) i [] caps = rmatch ns i [] caps"
| "rmatch (StarLazy k # ns) i (x # xs) caps =
     (case rmatch ns i (x # xs) caps of
        Some r \<Rightarrow> Some r
      | None \<Rightarrow> (if in_cls k x then rmatch (StarLazy k # ns) (Suc i) xs caps else None))"
| "rmatch (Opt b # ns) i s caps =
     (case rmatch (b @ ns) i s caps of
        Some r \<Rightarrow> Some r
      | None \<Rightarrow> rmatch ns i s caps)"
| "rmatch (Alt a b # ns) i s caps =
     (case rmatch (a @ ns) i s caps of
        Some r \<Rightarrow> Some r
      | None \<Rightarrow> rmatch (b @ ns) i s caps)"
| "rmatch (Grp n b # ns) i s caps = rmatch (b @ Close n s # ns) i s caps"
| "rmatch (Close n st # ns) i s caps =
     rmatch ns i s (caps @ [(n, take (length st - length s) st)])"
  by pat_completeness auto
termination
  by (relation "measures [\<lambda>(ns, i, s, caps). nssize ns, \<lambda>(ns, i, s, caps). length s]")
     (auto simp: nssize_def)

text \<open>
  \<^verbatim>\<open>String.prototype.match\<close> with a pattern that has no global flag: the matcher is
  tried at every start index from the left, and the first index with a match gives the
  result; \<open>None\<close> is JavaScript's \<^verbatim>\<open>null\<close>. The result maps every named group
  that took part in the match to the text it captured (\<^verbatim>\<open>.groups\<close>); a group that
  did not take part is absent (\<^verbatim>\<open>undefined\<close>).
\<close>

fun regex_exec :: "node list \<Rightarrow> nat \<Rightarrow> string \<Rightarrow> caps option" where
  "regex_exec ns i [] = rmatch ns i [] []"
| "regex_exec ns i (x # xs) =
     (case rmatch ns i (x # xs) [] of
        Some r \<Rightarrow> Some r
      | None \<Rightarrow> regex_exec ns (Suc i) xs)"

definition str_match :: "string \<Rightarrow> node list \<Rightarrow> caps option" where
  "str_match s ns = regex_exec ns 0 s"

definition lit :: "string \<Rightarrow> node list" where
  "lit s = map Chr s"

definition word_dot_slash :: cls where
  "word_dot_slash =
     Ranges [(CHR ''a'', CHR ''z''), (CHR ''A'', CHR ''Z''), (CHR ''0'', CHR ''9''),
             (CHR ''_'', CHR ''_''), (CHR ''.'', CHR ''.''), (CHR ''/'', CHR ''/'')]"

definition digit :: cls where
  "digit = Ranges [(CHR ''0'', CHR ''9'')]"

definition regexMerge :: "node list list \<Rightarrow> node list" where
  \<comment> \<open>Modelled from the spec: \<^verbatim>\<open>regexMerge\<close> lives in \<^verbatim>\<open>./support\<close>, which is
      not among the sources. The spec describes the pattern as the segments "combined
      left-to-right, anchored at both ends": the fragments are concatenated in order.\<close>
  "regexMerge fragments = concat fragments"

text \<open>
  The six fragments of lines 25-30, in order:
  \<^verbatim>\<open>/^(?<base>https:\/\/[\w\.\/]+)\/screenshots?/\<close>,
  \<^verbatim>\<open>/(?:\/(?<width>[0-9]+)x(?<height>[0-9]+))?/\<close>,
  \<^verbatim>\<open>/(?<path>\/.*?)/\<close>,
  \<^verbatim>\<open>/(?:@(?<scale>[2-4])x)?/\<close>,
  \<^verbatim>\<open>/(?:\.(?<format>(pdf|png)))?/\<close> and
  \<^verbatim>\<open>/(?<query>\?.*)?$/\<close>.
  The unnamed group around \<^verbatim>\<open>pdf|png\<close> captures by number only, which
  \<^verbatim>\<open>.groups\<close> does not show.
\<close>

definition pattern :: "node list" where
  "pattern = regexMerge
     [ [Bos, Grp ''base'' (lit ''https://'' @ [Plus word_dot_slash])] @ lit ''/screenshot''
         @ [Opt [Chr CHR ''s'']],
       [Opt ([Chr CHR ''/'', Grp ''width'' [Plus digit], Chr CHR ''x'',
              Grp ''height'' [Plus digit]])],
       [Grp ''path'' [Chr CHR ''/'', StarLazy Dot]],
       [Opt [Chr CHR ''@'', Grp ''scale'' [One (Ranges [(CHR ''2'', CHR ''4'')])],
             Chr CHR ''x'']],
       [Opt [Chr CHR ''.'', Grp ''format'' [Alt (lit ''pdf'') (lit ''png'')]]],
       [Opt [Grp ''query'' [Chr CHR ''?'', Star Dot]], Eos] ]"

section \<open>Parsing the request (\<^verbatim>\<open>Browser.fetch\<close>, lines 52-70)\<close>

text \<open>
  Configuration values of \<^verbatim>\<open>env\<close> are strings or \<^verbatim>\<open>undefined\<close>. A value is
  truthy when it is defined and not the empty string.
\<close>

record env =
  QUERY_PARAMS :: "string option"
  CF_ACCESS_CLIENT_ID :: "string option"
  CF_ACCESS_CLIENT_SECRET :: "string option"

fun truthy :: "string option \<Rightarrow> bool" where
  "truthy None = False"
| "truthy (Some s) = (s \<noteq> [])"

fun split_on :: "char \<Rightarrow> string \<Rightarrow> string list" where
  "split_on c [] = [[]]"
| "split_on c (x # xs) =
     (if x = c then [] # split_on c xs
      else (case split_on c xs of
              [] \<Rightarrow> [[x]]
            | y # ys \<Rightarrow> (x # y) # ys))"

fun join :: "string \<Rightarrow> string list \<Rightarrow> string" where
  "join sep [] = []"
| "join sep [x] = x"
| "join sep (x # y # ys) = x @ sep @ join sep (y # ys)"

fun strip_question :: "string \<Rightarrow> string" where
  \<comment> \<open>\<^verbatim>\<open>.replace(/^\?/, "")\<close>\<close>
  "strip_question [] = []"
| "strip_question (x # xs) = (if x = CHR ''?'' then xs else x # xs)"

definition params_of :: "string option \<Rightarrow> string list" where
  \<comment> \<open>\<^verbatim>\<open>v ? v.replace(/^\?/, "").split("&") : []\<close>\<close>
  "params_of v = (case v of
       None \<Rightarrow> []
     | Some s \<Rightarrow> if s = [] then [] else split_on CHR ''&'' (strip_question s))"

definition digit_val :: "char \<Rightarrow> nat" where
  "digit_val c = of_char c - of_char CHR ''0''"

definition parseInt :: "string \<Rightarrow> nat" where
  \<comment> \<open>\<^verbatim>\<open>parseInt\<close> on a string of decimal digits (the only strings the groups
      \<^verbatim>\<open>width\<close>, \<^verbatim>\<open>height\<close> and \<^verbatim>\<open>scale\<close> can capture). The result is a
      JavaScript number: it is this exact value below \<open>2 ^ 53\<close>; above, the source gets
      the nearest double, which the model does not represent.\<close>
  "parseInt ds = foldl (\<lambda>n c. 10 * n + digit_val c) 0 ds"

record defaults_t =
  d_format :: string
  d_width :: nat
  d_height :: nat
  d_maxage :: nat
  d_scale :: nat

definition defaults :: defaults_t where
  "defaults = \<lparr> d_format = ''png'', d_width = 1200, d_height = 630,
                 d_maxage = 60 * 60 * 24 * 7, d_scale = 1 \<rparr>"

text \<open>
  The values destructured at lines 54-61, and the target URL of line 70. The spread of
  \<^verbatim>\<open>settings\<close> over \<^verbatim>\<open>defaults\<close> leaves \<^verbatim>\<open>maxage\<close> at its default, since the
  pattern has no group of that name; \<^verbatim>\<open>format\<close>, \<^verbatim>\<open>width\<close>, \<^verbatim>\<open>height\<close> and
  \<^verbatim>\<open>scale\<close> are then set with \<^verbatim>\<open>??\<close>, and \<^verbatim>\<open>base\<close> and \<^verbatim>\<open>path\<close> are the
  groups as they are.
\<close>

record parsed =
  p_base :: "string option"
  p_format :: string
  p_path :: "string option"
  p_width :: nat
  p_height :: nat
  p_maxage :: nat
  p_scale :: nat
  p_params :: "string list"
  p_url :: string

fun text_of :: "string option \<Rightarrow> string" where
  "text_of None = []"
| "text_of (Some s) = s"

definition target_url :: "string option \<Rightarrow> string option \<Rightarrow> string list \<Rightarrow> string" where
  \<comment> \<open>Lines 68-70. \<^verbatim>\<open>params\<close> is an array, and every array is truthy in JavaScript,
      the empty one too: \<^verbatim>\<open>query\<close> is always the string \<^verbatim>\<open>"?" + params.join("&")\<close>
      and the branch \<^verbatim>\<open>null\<close> is never taken. The filter drops \<^verbatim>\<open>undefined\<close> and
      empty strings.\<close>
  "target_url b p params =
     (let query = Some (''?'' @ join ''&'' params)
      in concat (map text_of (filter truthy [b, p, query])))"

definition parse :: "env \<Rightarrow> caps \<Rightarrow> parsed" where
  "parse e settings =
     (let params = params_of (map_of settings ''query'') @ params_of (QUERY_PARAMS e)
      in \<lparr> p_base = map_of settings ''base'',
           p_format = (case map_of settings ''format'' of None \<Rightarrow> d_format defaults | Some f \<Rightarrow> f),
           p_path = map_of settings ''path'',
           p_width = (case map_of settings ''width'' of None \<Rightarrow> d_width defaults | Some w \<Rightarrow> parseInt w),
           p_height = (case map_of settings ''height'' of None \<Rightarrow> d_height defaults | Some h \<Rightarrow> parseInt h),
           p_maxage = d_maxage defaults,
           p_scale = (case map_of settings ''scale'' of None \<Rightarrow> d_scale defaults | Some k \<Rightarrow> parseInt k),
           p_params = params,
           p_url = target_url (map_of settings ''base'') (map_of settings ''path'') params \<rparr>)"

fun show_nat :: "nat \<Rightarrow> string" where
  \<comment> \<open>the decimal digits of a number, as a template literal prints it\<close>
  "show_nat n =
     (if n < 10 then [''0123456789'' ! n]
      else show_nat (n div 10) @ [''0123456789'' ! (n mod 10)])"

declare show_nat.simps [simp del]

section \<open>The collaborators: rendering engine, alarm storage, clock\<close>

text \<open>
  Every \<^verbatim>\<open>await\<close> of the source is a call to a collaborator, which returns or throws.
  The calls a handler makes are recorded in order, as a list of events. Browser handles
  are numbers. Calls to \<^verbatim>\<open>console.log\<close> are left out.
\<close>

datatype event =
    Launch
  | CreateIncognitoBrowserContext nat
  | NewPage
  | SetExtraHTTPHeaders string string
  | SetViewport nat nat nat
  | Goto string
  | Pdf
  | Screenshot nat nat
  | PageClose
  | ContextClose
  | GetAlarm
  | SetAlarm nat
  | BrowserClose nat

datatype error =
    TypeError
  | Thrown event

text \<open>
  What the collaborators do during one run of a handler: the clock readings, the result
  of \<^verbatim>\<open>puppeteer.launch\<close> (\<open>None\<close> when it throws), which handles report themselves
  connected, which calls throw, and the bytes a capture returns.
\<close>

record world =
  now :: nat
  now_expires :: nat
  launch_result :: "nat option"
  isConnected :: "nat \<Rightarrow> bool"
  throws :: "event \<Rightarrow> bool"
  captured :: string

text \<open>
  The fields of the \<^verbatim>\<open>Browser\<close> object, with the alarm of its storage: time stamps
  are milliseconds, \<open>None\<close> is \<^verbatim>\<open>undefined\<close> for the browser and \<^verbatim>\<open>null\<close> for
  the alarm.
\<close>

record do_state =
  browser :: "nat option"
  keptAliveInSeconds :: nat
  alarm :: "nat option"

record response =
  r_status :: nat
  r_body :: string
  r_cache_control :: string
  r_content_type :: string
  r_expires :: nat

type_synonym 'a outcome = "(error + 'a) \<times> do_state \<times> event list"

definition state_of :: "'a outcome \<Rightarrow> do_state" where
  "state_of out = fst (snd out)"

definition trace_of :: "'a outcome \<Rightarrow> event list" where
  "trace_of out = snd (snd out)"

definition call :: "world \<Rightarrow> event \<Rightarrow> do_state \<Rightarrow> event list \<Rightarrow> (event list \<Rightarrow> 'a outcome) \<Rightarrow> 'a outcome" where
  \<comment> \<open>one awaited call: when it throws, the handler stops there with the state it has\<close>
  "call w ev s t k = (if throws w ev then (Inl (Thrown ev), s, t @ [ev]) else k (t @ [ev]))"

definition KEEP_BROWSER_ALIVE_IN_SECONDS :: nat where
  "KEEP_BROWSER_ALIVE_IN_SECONDS = 60"

section \<open>\<^verbatim>\<open>Browser.fetch\<close> and \<^verbatim>\<open>Browser.alarm\<close>\<close>

definition need_launch :: "world \<Rightarrow> do_state \<Rightarrow> bool" where
  \<comment> \<open>\<^verbatim>\<open>!this.browser || !this.browser.isConnected()\<close>\<close>
  "need_launch w s = (case browser s of None \<Rightarrow> True | Some h \<Rightarrow> \<not> isConnected w h)"

definition start_browser :: "world \<Rightarrow> do_state \<Rightarrow> do_state \<times> event list" where
  \<comment> \<open>Lines 73-81: the exception of a failed launch is caught and logged, and the
      field \<^verbatim>\<open>this.browser\<close> keeps the value it had.\<close>
  "start_browser w s =
     (if need_launch w s
      then (case launch_result w of
              Some h \<Rightarrow> (s\<lparr>browser := Some h\<rparr>, [Launch])
            | None \<Rightarrow> (s, [Launch]))
      else (s, []))"

definition set_headers :: "env \<Rightarrow> world \<Rightarrow> do_state \<Rightarrow> event list \<Rightarrow> (event list \<Rightarrow> 'a outcome) \<Rightarrow> 'a outcome" where
  \<comment> \<open>Lines 90-95.\<close>
  "set_headers e w s t k =
     (case (CF_ACCESS_CLIENT_ID e, CF_ACCESS_CLIENT_SECRET e) of
        (Some cid, Some secret) \<Rightarrow>
          if cid \<noteq> [] \<and> secret \<noteq> []
          then call w (SetExtraHTTPHeaders cid secret) s t k
          else k t
      | _ \<Rightarrow> k t)"

definition capture :: "parsed \<Rightarrow> event" where
  \<comment> \<open>Lines 101-106.\<close>
  "capture p = (if p_format p = ''pdf'' then Pdf else Screenshot (p_width p) (p_height p))"

definition set_first_alarm :: "world \<Rightarrow> do_state \<Rightarrow> event list \<Rightarrow> (do_state \<Rightarrow> event list \<Rightarrow> 'a outcome) \<Rightarrow> 'a outcome" where
  \<comment> \<open>Lines 118-122, with \<^verbatim>\<open>currentAlarm\<close> the alarm the storage holds.\<close>
  "set_first_alarm w s t k =
     (if alarm s = None
      then call w (SetAlarm (now w + 10 * 1000)) s t
             (\<lambda>t'. k (s\<lparr>alarm := Some (now w + 10 * 1000)\<rparr>) t')
      else k s t)"

definition make_response :: "world \<Rightarrow> parsed \<Rightarrow> response" where
  \<comment> \<open>Lines 124-130. A \<^verbatim>\<open>Response\<close> built without a status has status 200. The
      header \<^verbatim>\<open>Expires\<close> is kept as its time stamp; its rendering as a date string is
      not modelled.\<close>
  "make_response w p =
     \<lparr> r_status = 200,
       r_body = captured w,
       r_cache_control = ''public, max-age='' @ show_nat (p_maxage p),
       r_content_type = (if p_format p = ''pdf'' then ''application/pdf''
                         else ''image/'' @ p_format p),
       r_expires = now_expires w + p_maxage p * 1000 \<rparr>"

definition render :: "env \<Rightarrow> world \<Rightarrow> parsed \<Rightarrow> nat \<Rightarrow> do_state \<Rightarrow> event list \<Rightarrow> response outcome" where
  \<comment> \<open>Lines 86-130, for the browser handle \<open>h\<close>.\<close>
  "render e w p h s t0 =
     call w (CreateIncognitoBrowserContext h) s t0 (\<lambda>t.
     call w NewPage s t (\<lambda>t.
     set_headers e w s t (\<lambda>t.
     call w (SetViewport (p_width p) (p_height p) (p_scale p)) s t (\<lambda>t.
     call w (Goto (p_url p)) s t (\<lambda>t.
     call w (capture p) s t (\<lambda>t.
     call w PageClose s t (\<lambda>t.
     call w ContextClose s t (\<lambda>t.
     call w GetAlarm (s\<lparr>keptAliveInSeconds := 0\<rparr>) t (\<lambda>t.
     set_first_alarm w (s\<lparr>keptAliveInSeconds := 0\<rparr>) t (\<lambda>s' t.
     (Inr (make_response w p), s', t)))))))))))"

definition Browser_fetch :: "env \<Rightarrow> world \<Rightarrow> string \<Rightarrow> do_state \<Rightarrow> response outcome" where
  \<comment> \<open>\<^verbatim>\<open>request.url.match(pattern).groups\<close> throws a TypeError when the match is
      \<^verbatim>\<open>null\<close>, and so does \<^verbatim>\<open>this.browser.createIncognitoBrowserContext()\<close> when
      \<^verbatim>\<open>this.browser\<close> is \<^verbatim>\<open>undefined\<close>.\<close>
  "Browser_fetch e w url s =
     (case str_match url pattern of
        None \<Rightarrow> (Inl TypeError, s, [])
      | Some settings \<Rightarrow>
          (let p = parse e settings;
               (s1, t1) = start_browser w s;
               s2 = s1\<lparr>keptAliveInSeconds := 0\<rparr>
           in case browser s2 of
                None \<Rightarrow> (Inl TypeError, s2, t1)
              | Some h \<Rightarrow> render e w p h s2 t1))"

definition Browser_alarm :: "world \<Rightarrow> do_state \<Rightarrow> unit outcome" where
  "Browser_alarm w s =
     (let s1 = s\<lparr>keptAliveInSeconds := keptAliveInSeconds s + 10\<rparr>
      in if keptAliveInSeconds s1 < KEEP_BROWSER_ALIVE_IN_SECONDS
         then call w (SetAlarm (now w + 10 * 1000)) s1 []
                (\<lambda>t. (Inr (), s1\<lparr>alarm := Some (now w + 10 * 1000)\<rparr>, t))
         else (case browser s1 of
                 None \<Rightarrow> (Inr (), s1, [])
               | Some h \<Rightarrow> call w (BrowserClose h) s1 [] (\<lambda>t. (Inr (), s1, t))))"

section \<open>The Worker's \<^verbatim>\<open>fetch\<close> handler (lines 5-21)\<close>

text \<open>
  The cache maps request URLs to responses. The handler asks the cache, then the one
  \<^verbatim>\<open>Browser\<close> object (named \<^verbatim>\<open>"browser"\<close>), and stores the response under the
  request URL. The outcome keeps the handler's own calls (\<open>calls\<close>) apart from the calls
  the \<^verbatim>\<open>Browser\<close> object made (\<open>engine_calls\<close>). An exception of
  \<^verbatim>\<open>browser.fetch\<close> is not caught: it leaves the handler.
\<close>

datatype wevent =
    CacheMatch string
  | StubFetch string
  | CachePut string response

record handled =
  res :: "error + response"
  cache_after :: "string \<rightharpoonup> response"
  state_after :: do_state
  calls :: "wevent list"
  engine_calls :: "event list"

definition fetch :: "env \<Rightarrow> world \<Rightarrow> string \<Rightarrow> (string \<rightharpoonup> response) \<Rightarrow> do_state \<Rightarrow> handled" where
  "fetch e w url c s =
     (case c url of
        Some screenshot \<Rightarrow>
          \<lparr> res = Inr screenshot, cache_after = c, state_after = s,
            calls = [CacheMatch url], engine_calls = [] \<rparr>
      | None \<Rightarrow>
          (case Browser_fetch e w url s of
             (Inl err, s', t) \<Rightarrow>
               \<lparr> res = Inl err, cache_after = c, state_after = s',
                 calls = [CacheMatch url, StubFetch url], engine_calls = t \<rparr>
           | (Inr response, s', t) \<Rightarrow>
               \<lparr> res = Inr response, cache_after = c(url \<mapsto> response), state_after = s',
                 calls = [CacheMatch url, StubFetch url, CachePut url response],
                 engine_calls = t \<rparr>))"

text \<open>
  The source builds no error response of its own. An exception that leaves the
  \<^verbatim>\<open>fetch\<close> handler is answered by the hosting runtime with an internal-error page
  (status 500): a failed outcome is a server error, and never a client error.
\<close>

fun is_client_error :: "error + response \<Rightarrow> bool" where
  "is_client_error (Inl err) = False"
| "is_client_error (Inr r) = (400 \<le> r_status r \<and> r_status r < 500)"

fun is_server_error :: "error + response \<Rightarrow> bool" where
  "is_server_error (Inl err) = True"
| "is_server_error (Inr r) = (500 \<le> r_status r \<and> r_status r < 600)"

section \<open>Example inputs\<close>

definition env0 :: env where
  "env0 = \<lparr> QUERY_PARAMS = None, CF_ACCESS_CLIENT_ID = None, CF_ACCESS_CLIENT_SECRET = None \<rparr>"

definition fresh :: do_state where
  \<comment> \<open>the state the constructor leaves, with no alarm in the storage\<close>
  "fresh = \<lparr> browser = None, keptAliveInSeconds = 0, alarm = None \<rparr>"

definition w_ok :: world where
  "w_ok = \<lparr> now = 5000, now_expires = 5001, launch_result = Some 1,
            isConnected = (\<lambda>h. True), throws = (\<lambda>ev. False), captured = ''bytes'' \<rparr>"

definition cached_page :: response where
  "cached_page = \<lparr> r_status = 200, r_body = ''old'', r_cache_control = ''public, max-age=604800'',
                    r_content_type = ''image/png'', r_expires = 7 \<rparr>"


definition effective_url :: "env \<Rightarrow> string \<Rightarrow> string option" where
  \<comment> \<open>the URL \<^verbatim>\<open>Browser.fetch\<close> navigates to, for a request URL that matches\<close>
  "effective_url e url = map_option (\<lambda>settings. p_url (parse e settings)) (str_match url pattern)"

fun is_set_alarm :: "event \<Rightarrow> bool" where
  "is_set_alarm (SetAlarm t) = True"
| "is_set_alarm ev = False"

fun ticks :: "world list \<Rightarrow> do_state \<Rightarrow> unit outcome list" where
  \<comment> \<open>consecutive runs of the alarm handler, one per world\<close>
  "ticks [] s = []"
| "ticks (w # ws) s = Browser_alarm w s # ticks ws (state_of (Browser_alarm w s))"

definition rendered :: do_state where
  \<comment> \<open>the state after the first successful render in \<open>w_ok\<close>\<close>
  "rendered = \<lparr> browser = Some 1, keptAliveInSeconds = 0, alarm = Some 15000 \<rparr>"

definition idle50 :: do_state where
  "idle50 = \<lparr> browser = Some 1, keptAliveInSeconds = 50, alarm = Some 65000 \<rparr>"

definition stale :: do_state where
  \<comment> \<open>a handle from an earlier launch, which has lost its connection since\<close>
  "stale = \<lparr> browser = Some 7, keptAliveInSeconds = 60, alarm = None \<rparr>"

definition w_goto_fails :: world where
  "w_goto_fails = \<lparr> now = 5000, now_expires = 5001, launch_result = Some 1,
      isConnected = (\<lambda>h. True),
      throws = (\<lambda>ev. ev = Goto ''https://example.com/bar?''),
      captured = ''bytes'' \<rparr>"

definition w_no_launch :: world where
  "w_no_launch = \<lparr> now = 5000, now_expires = 5001, launch_result = None,
      isConnected = (\<lambda>h. False),
      throws = (\<lambda>ev. ev = CreateIncognitoBrowserContext 7),
      captured = ''bytes'' \<rparr>"

definition env_access :: env where
  "env_access = \<lparr> QUERY_PARAMS = None, CF_ACCESS_CLIENT_ID = Some ''id'',
                   CF_ACCESS_CLIENT_SECRET = Some ''secret'' \<rparr>"

definition env_id_only :: env where
  "env_id_only = \<lparr> QUERY_PARAMS = None, CF_ACCESS_CLIENT_ID = Some ''id'',
                    CF_ACCESS_CLIENT_SECRET = None \<rparr>"

fun navigation_or_capture :: "event \<Rightarrow> bool" where
  "navigation_or_capture (Goto u) = True"
| "navigation_or_capture Pdf = True"
| "navigation_or_capture (Screenshot a b) = True"
| "navigation_or_capture ev = False"


section \<open>Facts about the handlers\<close>

lemmas render_defs = render_def call_def set_headers_def set_first_alarm_def capture_def

lemma Browser_fetch_cases:
  assumes "Browser_fetch e w url s = (r, s', t)"
  shows "(str_match url pattern = None \<and> r = Inl TypeError \<and> s' = s \<and> t = [])
       \<or> (\<exists>g. str_match url pattern = Some g
             \<and> ((browser (fst (start_browser w s)) = None \<and> r = Inl TypeError
                   \<and> s' = (fst (start_browser w s))\<lparr>keptAliveInSeconds := 0\<rparr>
                   \<and> t = snd (start_browser w s))
                \<or> (\<exists>h. browser (fst (start_browser w s)) = Some h
                      \<and> render e w (parse e g) h ((fst (start_browser w s))\<lparr>keptAliveInSeconds := 0\<rparr>)
                           (snd (start_browser w s)) = (r, s', t))))"
  using assms by (auto simp: Browser_fetch_def Let_def split: option.splits prod.splits)

lemma start_browser_alarm: "alarm (fst (start_browser w s)) = alarm s"
  by (simp add: start_browser_def split: option.splits)

lemma start_browser_no_set_alarm: "filter is_set_alarm (snd (start_browser w s)) = []"
  by (simp add: start_browser_def split: option.splits)

lemma render_ok_kept:
  assumes "render e w p h s t0 = (Inr x, s', t)"
  shows "keptAliveInSeconds s' = 0"
  using assms by (auto simp: render_defs split: if_splits option.splits)

lemma render_alarm_pending:
  assumes "render e w p h s t0 = (r, s', t)" and "alarm s = Some a"
  shows "alarm s' = Some a \<and> filter is_set_alarm t = filter is_set_alarm t0"
  using assms by (auto simp: render_defs split: if_splits option.splits)

lemma render_alarm_none:
  assumes "render e w p h s t0 = (r, s', t)" and "alarm s = None"
  shows "(case r of
            Inl err \<Rightarrow> alarm s' = None
                        \<and> (filter is_set_alarm t = filter is_set_alarm t0
                           \<or> filter is_set_alarm t = filter is_set_alarm t0 @ [SetAlarm (now w + 10 * 1000)])
          | Inr x \<Rightarrow> alarm s' = Some (now w + 10 * 1000)
                      \<and> filter is_set_alarm t = filter is_set_alarm t0 @ [SetAlarm (now w + 10 * 1000)])"
  using assms by (auto simp: render_defs split: if_splits option.splits)

lemma fetch_ok_kept:
  assumes "fst (Browser_fetch e w url s) = Inr x"
  shows "keptAliveInSeconds (state_of (Browser_fetch e w url s)) = 0"
proof -
  obtain r s' t where out: "Browser_fetch e w url s = (r, s', t)"
    by (cases "Browser_fetch e w url s") auto
  with assms have r: "r = Inr x" by simp
  from Browser_fetch_cases [OF out] r render_ok_kept show ?thesis
    by (auto simp: out state_of_def)
qed

lemma fetch_alarm_pending:
  assumes out: "Browser_fetch e w url s = (r, s', t)" and a: "alarm s = Some a"
  shows "alarm s' = Some a \<and> filter is_set_alarm t = []"
  using Browser_fetch_cases [OF out]
proof (elim disjE conjE exE)
  assume "s' = s" "t = []"
  with a show ?thesis by simp
next
  assume "s' = (fst (start_browser w s))\<lparr>keptAliveInSeconds := 0\<rparr>" "t = snd (start_browser w s)"
  with a show ?thesis by (simp add: start_browser_alarm start_browser_no_set_alarm)
next
  fix g h
  assume "render e w (parse e g) h ((fst (start_browser w s))\<lparr>keptAliveInSeconds := 0\<rparr>)
            (snd (start_browser w s)) = (r, s', t)"
  from render_alarm_pending [OF this, of a] a show ?thesis
    by (simp add: start_browser_alarm start_browser_no_set_alarm)
qed

lemma fetch_alarm_none:
  assumes out: "Browser_fetch e w url s = (r, s', t)" and a: "alarm s = None"
  shows "(case r of
            Inl err \<Rightarrow> alarm s' = None
                        \<and> (filter is_set_alarm t = []
                           \<or> filter is_set_alarm t = [SetAlarm (now w + 10 * 1000)])
          | Inr x \<Rightarrow> alarm s' = Some (now w + 10 * 1000)
                      \<and> filter is_set_alarm t = [SetAlarm (now w + 10 * 1000)])"
  using Browser_fetch_cases [OF out]
proof (elim disjE conjE exE)
  assume "r = Inl TypeError" "s' = s" "t = []"
  with a show ?thesis by simp
next
  assume "r = Inl TypeError" "s' = (fst (start_browser w s))\<lparr>keptAliveInSeconds := 0\<rparr>"
    "t = snd (start_browser w s)"
  with a show ?thesis by (simp add: start_browser_alarm start_browser_no_set_alarm)
next
  fix g h
  assume "render e w (parse e g) h ((fst (start_browser w s))\<lparr>keptAliveInSeconds := 0\<rparr>)
            (snd (start_browser w s)) = (r, s', t)"
  from render_alarm_none [OF this] a show ?thesis
    by (simp add: start_browser_alarm start_browser_no_set_alarm split: sum.splits)
qed

lemma alarm_kept: "keptAliveInSeconds (state_of (Browser_alarm w s)) = keptAliveInSeconds s + 10"
  by (simp add: Browser_alarm_def Let_def call_def state_of_def split: option.splits)

lemma alarm_browser: "browser (state_of (Browser_alarm w s)) = browser s"
  by (simp add: Browser_alarm_def Let_def call_def state_of_def split: option.splits)

lemma alarm_extend:
  "keptAliveInSeconds s + 10 < 60 \<Longrightarrow> trace_of (Browser_alarm w s) = [SetAlarm (now w + 10 * 1000)]"
  by (simp add: Browser_alarm_def Let_def call_def trace_of_def KEEP_BROWSER_ALIVE_IN_SECONDS_def)

lemma alarm_extend_state:
  "keptAliveInSeconds s + 10 < 60 \<Longrightarrow> \<not> throws w (SetAlarm (now w + 10 * 1000)) \<Longrightarrow>
   alarm (state_of (Browser_alarm w s)) = Some (now w + 10 * 1000)"
  by (simp add: Browser_alarm_def Let_def call_def state_of_def KEEP_BROWSER_ALIVE_IN_SECONDS_def)

lemma alarm_evict:
  "60 \<le> keptAliveInSeconds s + 10 \<Longrightarrow>
   trace_of (Browser_alarm w s) = (case browser s of None \<Rightarrow> [] | Some h \<Rightarrow> [BrowserClose h])
   \<and> alarm (state_of (Browser_alarm w s)) = alarm s"
  by (simp add: Browser_alarm_def Let_def call_def state_of_def trace_of_def
        KEEP_BROWSER_ALIVE_IN_SECONDS_def split: option.splits)

lemmas run_defs = Browser_fetch_def parse_def params_of_def target_url_def defaults_def
  start_browser_def need_launch_def render_def call_def set_headers_def set_first_alarm_def
  capture_def make_response_def

lemma show_maxage: "show_nat 604800 = ''604800''"
  by (simp add: show_nat.simps)

lemma match_bar:
  "str_match ''https://example.com/screenshots/bar'' pattern
   = Some [(''base'', ''https://example.com''), (''path'', ''/bar'')]"
  by code_simp

lemma first_render_ok:
  "Browser_fetch env0 w_ok ''https://example.com/screenshots/bar'' fresh
   = (Inr \<lparr> r_status = 200, r_body = ''bytes'', r_cache_control = ''public, max-age=604800'',
             r_content_type = ''image/png'', r_expires = 604805001 \<rparr>,
      rendered,
      [Launch, CreateIncognitoBrowserContext 1, NewPage, SetViewport 1200 630 1,
       Goto ''https://example.com/bar?'', Screenshot 1200 630, PageClose, ContextClose,
       GetAlarm, SetAlarm 15000])"
  by (simp add: run_defs match_bar show_maxage env0_def w_ok_def fresh_def rendered_def)

lemma start_browser_trace: "snd (start_browser w s) = [] \<or> snd (start_browser w s) = [Launch]"
  by (simp add: start_browser_def split: option.splits)

lemma render_ok_trace:
  assumes "render e w p h s t0 = (Inr x, s', t)"
  shows "t = t0 @ [CreateIncognitoBrowserContext h, NewPage]
           @ (if truthy (CF_ACCESS_CLIENT_ID e) \<and> truthy (CF_ACCESS_CLIENT_SECRET e)
              then [SetExtraHTTPHeaders (text_of (CF_ACCESS_CLIENT_ID e))
                      (text_of (CF_ACCESS_CLIENT_SECRET e))]
              else [])
           @ [SetViewport (p_width p) (p_height p) (p_scale p), Goto (p_url p), capture p,
              PageClose, ContextClose, GetAlarm]
           @ (if alarm s = None then [SetAlarm (now w + 10 * 1000)] else [])"
  using assms
  by (auto simp: render_def call_def set_headers_def set_first_alarm_def
           split: if_splits option.splits)

lemma render_fail_no_close:
  assumes "render e w p h s t0 = (Inl (Thrown ev), s', t)"
    and "navigation_or_capture ev"
    and "PageClose \<notin> set t0" and "ContextClose \<notin> set t0"
  shows "PageClose \<notin> set t \<and> ContextClose \<notin> set t"
  using assms by (auto simp: render_defs split: if_splits option.splits)

lemma goto_fails_run:
  "Browser_fetch env0 w_goto_fails ''https://example.com/screenshots/bar'' fresh
   = (Inl (Thrown (Goto ''https://example.com/bar?'')),
      \<lparr> browser = Some 1, keptAliveInSeconds = 0, alarm = None \<rparr>,
      [Launch, CreateIncognitoBrowserContext 1, NewPage, SetViewport 1200 630 1,
       Goto ''https://example.com/bar?''])"
  by (simp add: run_defs match_bar env0_def w_goto_fails_def fresh_def)

lemma render_browser:
  assumes "render e w p h s t0 = (r, s', t)"
  shows "browser s' = browser s"
  using assms by (auto simp: render_defs split: if_splits option.splits)

lemma render_prefix:
  assumes "render e w p h s t0 = (r, s', t)"
  shows "take (length t0) t = t0"
  using assms by (auto simp: render_defs split: if_splits option.splits)

lemma fetch_launches_first:
  assumes m: "str_match url pattern = Some g" and n: "need_launch w s"
  shows "take 1 (trace_of (Browser_fetch e w url s)) = [Launch]"
proof -
  obtain r s' t where out: "Browser_fetch e w url s = (r, s', t)"
    by (cases "Browser_fetch e w url s") auto
  from n have st: "snd (start_browser w s) = [Launch]"
    by (simp add: start_browser_def split: option.splits)
  from Browser_fetch_cases [OF out] m
  consider "t = snd (start_browser w s)"
    | g' h where "render e w (parse e g') h ((fst (start_browser w s))\<lparr>keptAliveInSeconds := 0\<rparr>)
             (snd (start_browser w s)) = (r, s', t)"
    by auto
  then have "take 1 t = [Launch]"
  proof cases
    case 1
    with st show ?thesis by simp
  next
    case 2
    from render_prefix [OF 2] st show ?thesis by simp
  qed
  then show ?thesis by (simp add: out trace_of_def)
qed

lemma fetch_failed_launch:
  assumes m: "str_match url pattern = Some g" and n: "need_launch w s"
    and l: "launch_result w = None"
  shows "browser (state_of (Browser_fetch e w url s)) = browser s"
proof -
  obtain r s' t where out: "Browser_fetch e w url s = (r, s', t)"
    by (cases "Browser_fetch e w url s") auto
  from n l have st: "fst (start_browser w s) = s"
    by (simp add: start_browser_def)
  from Browser_fetch_cases [OF out] m
  consider "s' = (fst (start_browser w s))\<lparr>keptAliveInSeconds := 0\<rparr>"
    | g' h where "render e w (parse e g') h ((fst (start_browser w s))\<lparr>keptAliveInSeconds := 0\<rparr>)
             (snd (start_browser w s)) = (r, s', t)"
    by auto
  then have "browser s' = browser s"
  proof cases
    case 1
    with st show ?thesis by simp
  next
    case 2
    from render_browser [OF 2] st show ?thesis by simp
  qed
  then show ?thesis by (simp add: out state_of_def)
qed

lemma stale_run:
  "Browser_fetch env0 w_no_launch ''https://example.com/screenshots/bar'' stale
   = (Inl (Thrown (CreateIncognitoBrowserContext 7)),
      \<lparr> browser = Some 7, keptAliveInSeconds = 0, alarm = None \<rparr>,
      [Launch, CreateIncognitoBrowserContext 7])"
  by (simp add: run_defs match_bar env0_def w_no_launch_def stale_def)

lemma match_dimensions_without_path:
  "str_match ''https://example.com/screenshot/600x400'' pattern
   = Some [(''base'', ''https://example.com''), (''path'', ''/600x400'')]"
  by code_simp

lemma match_png_with_query:
  "str_match ''https://a.b/x/screenshots/10x20/p/q.png?k=v&l=w'' pattern
   = Some [(''base'', ''https://a.b/x''), (''width'', ''10''), (''height'', ''20''),
           (''path'', ''/p/q''), (''format'', ''png''), (''query'', ''?k=v&l=w'')]"
  by code_simp

lemma match_example:
  "str_match ''https://example.com/screenshot/600x400/foo/bar@2x.pdf?x=1'' pattern
   = Some [(''base'', ''https://example.com''), (''width'', ''600''), (''height'', ''400''),
           (''path'', ''/foo/bar''), (''scale'', ''2''), (''format'', ''pdf''), (''query'', ''?x=1'')]"
  by code_simp

lemma match_malformed: "str_match ''https://example.com/notscreenshot/bar'' pattern = None"
  by code_simp

lemma parse_example:
  "parse env0 [(''base'', ''https://example.com''), (''width'', ''600''), (''height'', ''400''),
           (''path'', ''/foo/bar''), (''scale'', ''2''), (''format'', ''pdf''), (''query'', ''?x=1'')]
   = \<lparr> p_base = Some ''https://example.com'', p_format = ''pdf'', p_path = Some ''/foo/bar'',
       p_width = 600, p_height = 400, p_maxage = 604800, p_scale = 2, p_params = [''x=1''],
       p_url = ''https://example.com/foo/bar?x=1'' \<rparr>"
  by (simp add: parse_def params_of_def target_url_def defaults_def parseInt_def digit_val_def env0_def)

lemma fetch_miss:
  assumes "Browser_fetch e w url s = (r, s', t)" and "c url = None"
  shows "fetch e w url c s
         = (case r of
              Inl err \<Rightarrow> \<lparr> res = Inl err, cache_after = c, state_after = s',
                           calls = [CacheMatch url, StubFetch url], engine_calls = t \<rparr>
            | Inr response \<Rightarrow> \<lparr> res = Inr response, cache_after = c(url \<mapsto> response),
                 state_after = s', calls = [CacheMatch url, StubFetch url, CachePut url response],
                 engine_calls = t \<rparr>)"
  using assms by (simp add: fetch_def split: sum.splits)

lemma start_browser_no_header: "SetExtraHTTPHeaders a b \<notin> set (snd (start_browser w s))"
  using start_browser_trace [of w s] by auto

lemma start_browser_no_page: "NewPage \<notin> set (snd (start_browser w s))"
  using start_browser_trace [of w s] by auto

lemma render_headers_only_if:
  assumes "render e w p h s t0 = (r, s', t)" and "SetExtraHTTPHeaders a b \<in> set t"
    and "SetExtraHTTPHeaders a b \<notin> set t0"
  shows "CF_ACCESS_CLIENT_ID e = Some a \<and> CF_ACCESS_CLIENT_SECRET e = Some b
         \<and> a \<noteq> [] \<and> b \<noteq> []"
  using assms by (auto simp: render_defs split: if_splits option.splits)

lemma render_headers_if:
  assumes "render e w p h s t0 = (r, s', t)" and "NewPage \<in> set t" and "NewPage \<notin> set t0"
    and "\<not> throws w NewPage"
    and "truthy (CF_ACCESS_CLIENT_ID e)" and "truthy (CF_ACCESS_CLIENT_SECRET e)"
  shows "SetExtraHTTPHeaders (text_of (CF_ACCESS_CLIENT_ID e)) (text_of (CF_ACCESS_CLIENT_SECRET e)) \<in> set t"
  using assms by (auto simp: render_defs split: if_splits option.splits)

lemma access_run_trace:
  "trace_of (Browser_fetch env_access w_ok ''https://example.com/screenshots/bar'' fresh)
   = [Launch, CreateIncognitoBrowserContext 1, NewPage, SetExtraHTTPHeaders ''id'' ''secret'',
      SetViewport 1200 630 1, Goto ''https://example.com/bar?'', Screenshot 1200 630,
      PageClose, ContextClose, GetAlarm, SetAlarm 15000]"
  by (simp add: run_defs trace_of_def match_bar env_access_def w_ok_def fresh_def)


section \<open>The keep-alive timer\<close>

text \<open>
  C1. After every completed render \<^verbatim>\<open>keptAliveInSeconds\<close> is 0. Every run of the alarm
  handler adds exactly 10 to it. When the sum is below 60 the handler sets another alarm
  10 seconds (10000 ms) after the current time, and that is its only call. When the sum
  is at least 60 the handler closes the browser (when there is a handle) and sets no
  alarm: the alarm of the storage stays as it was. So, of six consecutive runs after a
  render, the first five each set the next alarm and the sixth, the first to reach 60,
  releases the handle and sets none.
\<close>

theorem keep_alive_lifecycle:
  "(\<forall>x. fst (Browser_fetch e w url s) = Inr x \<longrightarrow>
         keptAliveInSeconds (state_of (Browser_fetch e w url s)) = 0)
   \<and> keptAliveInSeconds (state_of (Browser_alarm wa sa)) = keptAliveInSeconds sa + 10
   \<and> (keptAliveInSeconds sa + 10 < 60 \<longrightarrow>
         trace_of (Browser_alarm wa sa) = [SetAlarm (now wa + 10 * 1000)]
       \<and> (\<not> throws wa (SetAlarm (now wa + 10 * 1000)) \<longrightarrow>
            alarm (state_of (Browser_alarm wa sa)) = Some (now wa + 10 * 1000)))
   \<and> (60 \<le> keptAliveInSeconds sb + 10 \<longrightarrow>
         trace_of (Browser_alarm wb sb)
           = (case browser sb of None \<Rightarrow> [] | Some h \<Rightarrow> [BrowserClose h])
       \<and> alarm (state_of (Browser_alarm wb sb)) = alarm sb)
   \<and> (keptAliveInSeconds s0 = 0 \<longrightarrow>
         map trace_of (ticks [w1, w2, w3, w4, w5, w6] s0)
           = [[SetAlarm (now w1 + 10 * 1000)], [SetAlarm (now w2 + 10 * 1000)],
              [SetAlarm (now w3 + 10 * 1000)], [SetAlarm (now w4 + 10 * 1000)],
              [SetAlarm (now w5 + 10 * 1000)],
              (case browser s0 of None \<Rightarrow> [] | Some h \<Rightarrow> [BrowserClose h])])"
proof (intro conjI allI impI)
  fix x
  assume "fst (Browser_fetch e w url s) = Inr x"
  then show "keptAliveInSeconds (state_of (Browser_fetch e w url s)) = 0"
    by (rule fetch_ok_kept)
next
  show "keptAliveInSeconds (state_of (Browser_alarm wa sa)) = keptAliveInSeconds sa + 10"
    by (rule alarm_kept)
next
  assume "keptAliveInSeconds sa + 10 < 60"
  then show "trace_of (Browser_alarm wa sa) = [SetAlarm (now wa + 10 * 1000)]"
    by (rule alarm_extend)
next
  assume "keptAliveInSeconds sa + 10 < 60" "\<not> throws wa (SetAlarm (now wa + 10 * 1000))"
  then show "alarm (state_of (Browser_alarm wa sa)) = Some (now wa + 10 * 1000)"
    by (rule alarm_extend_state)
next
  assume "60 \<le> keptAliveInSeconds sb + 10"
  then show "trace_of (Browser_alarm wb sb)
           = (case browser sb of None \<Rightarrow> [] | Some h \<Rightarrow> [BrowserClose h])"
    by (simp add: alarm_evict)
next
  assume "60 \<le> keptAliveInSeconds sb + 10"
  then show "alarm (state_of (Browser_alarm wb sb)) = alarm sb"
    by (simp add: alarm_evict)
next
  assume "keptAliveInSeconds s0 = 0"
  then show "map trace_of (ticks [w1, w2, w3, w4, w5, w6] s0)
           = [[SetAlarm (now w1 + 10 * 1000)], [SetAlarm (now w2 + 10 * 1000)],
              [SetAlarm (now w3 + 10 * 1000)], [SetAlarm (now w4 + 10 * 1000)],
              [SetAlarm (now w5 + 10 * 1000)],
              (case browser s0 of None \<Rightarrow> [] | Some h \<Rightarrow> [BrowserClose h])]"
    by (simp add: alarm_extend alarm_evict alarm_kept alarm_browser)
qed

theorem keep_alive_lifecycle_witness:
  "fst (Browser_fetch env0 w_ok ''https://example.com/screenshots/bar'' fresh)
     = Inr \<lparr> r_status = 200, r_body = ''bytes'', r_cache_control = ''public, max-age=604800'',
             r_content_type = ''image/png'', r_expires = 604805001 \<rparr>
   \<and> keptAliveInSeconds
        (state_of (Browser_fetch env0 w_ok ''https://example.com/screenshots/bar'' fresh)) = 0
   \<and> keptAliveInSeconds rendered + 10 < 60
   \<and> \<not> throws w_ok (SetAlarm (now w_ok + 10 * 1000))
   \<and> keptAliveInSeconds (state_of (Browser_alarm w_ok rendered)) = 10
   \<and> trace_of (Browser_alarm w_ok rendered) = [SetAlarm 15000]
   \<and> alarm (state_of (Browser_alarm w_ok rendered)) = Some 15000
   \<and> 60 \<le> keptAliveInSeconds idle50 + 10
   \<and> trace_of (Browser_alarm w_ok idle50) = [BrowserClose 1]
   \<and> alarm (state_of (Browser_alarm w_ok idle50)) = Some 65000
   \<and> keptAliveInSeconds rendered = 0
   \<and> map trace_of (ticks [w_ok, w_ok, w_ok, w_ok, w_ok, w_ok] rendered)
        = [[SetAlarm 15000], [SetAlarm 15000], [SetAlarm 15000], [SetAlarm 15000],
           [SetAlarm 15000], [BrowserClose 1]]"
proof -
  note T = keep_alive_lifecycle [of env0 w_ok "''https://example.com/screenshots/bar''" fresh
      w_ok rendered idle50 w_ok rendered w_ok w_ok w_ok w_ok w_ok w_ok]
  have ok: "fst (Browser_fetch env0 w_ok ''https://example.com/screenshots/bar'' fresh)
     = Inr \<lparr> r_status = 200, r_body = ''bytes'', r_cache_control = ''public, max-age=604800'',
             r_content_type = ''image/png'', r_expires = 604805001 \<rparr>"
    by (simp add: first_render_ok)
  have facts: "keptAliveInSeconds rendered = 0" "browser rendered = Some 1"
    "keptAliveInSeconds idle50 = 50" "browser idle50 = Some 1" "alarm idle50 = Some 65000"
    "now w_ok = 5000" "\<not> throws w_ok (SetAlarm (now w_ok + 10 * 1000))"
    by (simp_all add: rendered_def idle50_def w_ok_def)
  from T ok facts show ?thesis by simp
qed


text \<open>
  C2. The storage holds at most one alarm (\<open>alarm\<close> is one optional time stamp), and
  \<^verbatim>\<open>Browser.fetch\<close> never replaces a pending one: when an alarm is pending, the call
  leaves it as it is and makes no \<^verbatim>\<open>setAlarm\<close> call, whatever its outcome. When none is
  pending, a completed call makes exactly one \<^verbatim>\<open>setAlarm\<close> call, for 10 seconds
  (10000 ms) after the current time, and that alarm is then pending; a call that fails makes
  at most that one \<^verbatim>\<open>setAlarm\<close> call and leaves no alarm pending.
\<close>

theorem one_eviction_timer:
  "(\<forall>a. alarm s = Some a \<longrightarrow>
        alarm (state_of (Browser_fetch e w url s)) = Some a
      \<and> filter is_set_alarm (trace_of (Browser_fetch e w url s)) = [])
   \<and> (alarm s = None \<longrightarrow>
        (case fst (Browser_fetch e w url s) of
           Inl err \<Rightarrow>
             alarm (state_of (Browser_fetch e w url s)) = None
             \<and> (filter is_set_alarm (trace_of (Browser_fetch e w url s)) = []
                \<or> filter is_set_alarm (trace_of (Browser_fetch e w url s))
                     = [SetAlarm (now w + 10 * 1000)])
         | Inr x \<Rightarrow>
             alarm (state_of (Browser_fetch e w url s)) = Some (now w + 10 * 1000)
             \<and> filter is_set_alarm (trace_of (Browser_fetch e w url s))
                  = [SetAlarm (now w + 10 * 1000)]))"
proof -
  obtain r s' t where out: "Browser_fetch e w url s = (r, s', t)"
    by (cases "Browser_fetch e w url s") auto
  show ?thesis
    using fetch_alarm_pending [OF out] fetch_alarm_none [OF out]
    by (auto simp: out state_of_def trace_of_def split: sum.splits)
qed

theorem one_eviction_timer_witness:
  "alarm rendered = Some 15000
   \<and> alarm (state_of (Browser_fetch env0 w_ok ''https://example.com/screenshots/bar'' rendered))
        = Some 15000
   \<and> filter is_set_alarm
        (trace_of (Browser_fetch env0 w_ok ''https://example.com/screenshots/bar'' rendered)) = []
   \<and> alarm fresh = None
   \<and> alarm (state_of (Browser_fetch env0 w_ok ''https://example.com/screenshots/bar'' fresh))
        = Some 15000
   \<and> filter is_set_alarm
        (trace_of (Browser_fetch env0 w_ok ''https://example.com/screenshots/bar'' fresh))
        = [SetAlarm 15000]"
proof -
  have pending: "alarm rendered = Some 15000" and none: "alarm fresh = None"
    and clock: "now w_ok = 5000"
    by (simp_all add: rendered_def fresh_def w_ok_def)
  have ok: "fst (Browser_fetch env0 w_ok ''https://example.com/screenshots/bar'' fresh)
     = Inr \<lparr> r_status = 200, r_body = ''bytes'', r_cache_control = ''public, max-age=604800'',
             r_content_type = ''image/png'', r_expires = 604805001 \<rparr>"
    by (simp add: first_render_ok)
  from one_eviction_timer [of rendered env0 w_ok "''https://example.com/screenshots/bar''"]
    one_eviction_timer [of fresh env0 w_ok "''https://example.com/screenshots/bar''"]
    pending none clock ok
  show ?thesis by simp
qed


section \<open>Cleanup of the page and the context\<close>

text \<open>
  C3, as the claim states it, does not hold: \<^verbatim>\<open>Browser.fetch\<close> has no handler around
  lines 86-110, so an exception of \<^verbatim>\<open>page.goto\<close> leaves the function at once. With a
  navigation that fails, the calls made are the launch, the context, the page, the
  viewport and the navigation: neither \<^verbatim>\<open>page.close()\<close> nor \<^verbatim>\<open>context.close()\<close> runs.
\<close>

theorem cleanup_skipped_counterexample:
  "fst (Browser_fetch env0 w_goto_fails ''https://example.com/screenshots/bar'' fresh)
     = Inl (Thrown (Goto ''https://example.com/bar?''))
   \<and> trace_of (Browser_fetch env0 w_goto_fails ''https://example.com/screenshots/bar'' fresh)
     = [Launch, CreateIncognitoBrowserContext 1, NewPage, SetViewport 1200 630 1,
        Goto ''https://example.com/bar?'']
   \<and> PageClose \<notin> set (trace_of
         (Browser_fetch env0 w_goto_fails ''https://example.com/screenshots/bar'' fresh))
   \<and> ContextClose \<notin> set (trace_of
         (Browser_fetch env0 w_goto_fails ''https://example.com/screenshots/bar'' fresh))"
  by (simp add: goto_fails_run trace_of_def)

text \<open>
  C3, amended. On every completed render the page is closed and then, as the next call,
  the context is closed, once each. When the navigation or the capture throws, the
  exception leaves \<^verbatim>\<open>Browser.fetch\<close> and neither the page nor the context is closed.
\<close>

theorem cleanup_after_capture:
  "(\<forall>x. fst (Browser_fetch e w url s) = Inr x \<longrightarrow>
        (\<exists>pre post. trace_of (Browser_fetch e w url s) = pre @ [PageClose, ContextClose] @ post
            \<and> PageClose \<notin> set pre \<and> ContextClose \<notin> set pre
            \<and> PageClose \<notin> set post \<and> ContextClose \<notin> set post))
   \<and> (\<forall>ev. fst (Browser_fetch e w url s) = Inl (Thrown ev) \<longrightarrow> navigation_or_capture ev \<longrightarrow>
          PageClose \<notin> set (trace_of (Browser_fetch e w url s))
        \<and> ContextClose \<notin> set (trace_of (Browser_fetch e w url s)))"
proof -
  obtain r s' t where out: "Browser_fetch e w url s = (r, s', t)"
    by (cases "Browser_fetch e w url s") auto
  note cs = Browser_fetch_cases [OF out]
  have t0: "PageClose \<notin> set (snd (start_browser w s))" "ContextClose \<notin> set (snd (start_browser w s))"
    using start_browser_trace [of w s] by auto
  have completed: "\<exists>pre post. t = pre @ [PageClose, ContextClose] @ post
            \<and> PageClose \<notin> set pre \<and> ContextClose \<notin> set pre
            \<and> PageClose \<notin> set post \<and> ContextClose \<notin> set post" if r: "r = Inr x" for x
  proof -
    from cs r obtain g h where
      ren: "render e w (parse e g) h ((fst (start_browser w s))\<lparr>keptAliveInSeconds := 0\<rparr>)
             (snd (start_browser w s)) = (Inr x, s', t)"
      by auto
    let ?p = "parse e g"
    let ?pre = "snd (start_browser w s) @ [CreateIncognitoBrowserContext h, NewPage]
           @ (if truthy (CF_ACCESS_CLIENT_ID e) \<and> truthy (CF_ACCESS_CLIENT_SECRET e)
              then [SetExtraHTTPHeaders (text_of (CF_ACCESS_CLIENT_ID e))
                      (text_of (CF_ACCESS_CLIENT_SECRET e))]
              else [])
           @ [SetViewport (p_width ?p) (p_height ?p) (p_scale ?p), Goto (p_url ?p), capture ?p]"
    let ?post = "GetAlarm # (if alarm ((fst (start_browser w s))\<lparr>keptAliveInSeconds := 0\<rparr>) = None
                   then [SetAlarm (now w + 10 * 1000)] else [])"
    have "t = ?pre @ [PageClose, ContextClose] @ ?post"
      using render_ok_trace [OF ren] by simp
    moreover have "PageClose \<notin> set ?pre \<and> ContextClose \<notin> set ?pre"
      using t0 by (simp add: capture_def)
    moreover have "PageClose \<notin> set ?post \<and> ContextClose \<notin> set ?post"
      by simp
    ultimately show ?thesis by blast
  qed
  have failed: "PageClose \<notin> set t \<and> ContextClose \<notin> set t"
    if r: "r = Inl (Thrown ev)" and ev: "navigation_or_capture ev" for ev
  proof -
    from cs r obtain g h where
      ren: "render e w (parse e g) h ((fst (start_browser w s))\<lparr>keptAliveInSeconds := 0\<rparr>)
             (snd (start_browser w s)) = (Inl (Thrown ev), s', t)"
      by auto
    from render_fail_no_close [OF ren ev t0] show ?thesis .
  qed
  show ?thesis using completed failed by (simp add: out trace_of_def)
qed

theorem cleanup_after_capture_witness:
  "fst (Browser_fetch env0 w_ok ''https://example.com/screenshots/bar'' fresh)
     = Inr \<lparr> r_status = 200, r_body = ''bytes'', r_cache_control = ''public, max-age=604800'',
             r_content_type = ''image/png'', r_expires = 604805001 \<rparr>
   \<and> (\<exists>pre post.
         trace_of (Browser_fetch env0 w_ok ''https://example.com/screenshots/bar'' fresh)
           = pre @ [PageClose, ContextClose] @ post
         \<and> PageClose \<notin> set pre \<and> ContextClose \<notin> set pre
         \<and> PageClose \<notin> set post \<and> ContextClose \<notin> set post)
   \<and> fst (Browser_fetch env0 w_goto_fails ''https://example.com/screenshots/bar'' fresh)
     = Inl (Thrown (Goto ''https://example.com/bar?''))
   \<and> navigation_or_capture (Goto ''https://example.com/bar?'')
   \<and> PageClose \<notin> set (trace_of
         (Browser_fetch env0 w_goto_fails ''https://example.com/screenshots/bar'' fresh))
   \<and> ContextClose \<notin> set (trace_of
         (Browser_fetch env0 w_goto_fails ''https://example.com/screenshots/bar'' fresh))"
proof -
  have ok: "fst (Browser_fetch env0 w_ok ''https://example.com/screenshots/bar'' fresh)
     = Inr \<lparr> r_status = 200, r_body = ''bytes'', r_cache_control = ''public, max-age=604800'',
             r_content_type = ''image/png'', r_expires = 604805001 \<rparr>"
    by (simp add: first_render_ok)
  have failed: "fst (Browser_fetch env0 w_goto_fails ''https://example.com/screenshots/bar'' fresh)
     = Inl (Thrown (Goto ''https://example.com/bar?''))"
    by (simp add: goto_fails_run)
  have nav: "navigation_or_capture (Goto ''https://example.com/bar?'')"
    by simp
  from cleanup_after_capture [of env0 w_ok "''https://example.com/screenshots/bar''" fresh]
    cleanup_after_capture [of env0 w_goto_fails "''https://example.com/screenshots/bar''" fresh]
    ok failed nav
  show ?thesis by simp
qed


section \<open>A launch that fails\<close>

text \<open>
  C4, as the claim states it, does not hold. The exception of \<^verbatim>\<open>puppeteer.launch\<close> is
  caught and logged, and the function goes on with the field \<^verbatim>\<open>this.browser\<close> as it
  was. With a handle of an earlier launch that has lost its connection, the handle stays
  registered after the failed launch, and the error the caller gets is the one of the
  call made on that handle, not the launch failure.
\<close>

theorem launch_failure_counterexample:
  "launch_result w_no_launch = None
   \<and> need_launch w_no_launch stale
   \<and> fst (Browser_fetch env0 w_no_launch ''https://example.com/screenshots/bar'' stale)
       = Inl (Thrown (CreateIncognitoBrowserContext 7))
   \<and> browser (state_of (Browser_fetch env0 w_no_launch ''https://example.com/screenshots/bar'' stale))
       = Some 7"
proof -
  have "launch_result w_no_launch = None" and "need_launch w_no_launch stale"
    by (simp_all add: need_launch_def w_no_launch_def stale_def)
  then show ?thesis by (simp add: stale_run state_of_def)
qed

text \<open>
  C4, amended. When the launch fails, its exception does not leave \<^verbatim>\<open>Browser.fetch\<close>,
  and no new handle is registered: the field \<^verbatim>\<open>this.browser\<close> keeps the value it had.
  When it had none, the call fails with a TypeError right after the launch attempt, which
  is surfaced to the caller, and no handle is registered. The next call attempts the
  launch again, as its first call, whenever the field is unset or its handle reports
  itself disconnected; with the field unset that is always so.
\<close>

theorem launch_failure_keeps_field:
  assumes "str_match url pattern = Some g" and "need_launch w s" and "launch_result w = None"
  shows "browser (state_of (Browser_fetch e w url s)) = browser s
       \<and> take 1 (trace_of (Browser_fetch e w url s)) = [Launch]
       \<and> (browser s = None \<longrightarrow>
            Browser_fetch e w url s = (Inl TypeError, s\<lparr>keptAliveInSeconds := 0\<rparr>, [Launch])
          \<and> (\<forall>w'. need_launch w' (state_of (Browser_fetch e w url s))))
       \<and> (\<forall>e' w' url' g'. str_match url' pattern = Some g'
             \<longrightarrow> need_launch w' (state_of (Browser_fetch e w url s))
             \<longrightarrow> take 1 (trace_of (Browser_fetch e' w' url' (state_of (Browser_fetch e w url s))))
                   = [Launch])"
proof (intro conjI impI allI)
  show b: "browser (state_of (Browser_fetch e w url s)) = browser s"
    using assms by (rule fetch_failed_launch)
  show "take 1 (trace_of (Browser_fetch e w url s)) = [Launch]"
    using assms(1,2) by (rule fetch_launches_first)
  show "Browser_fetch e w url s = (Inl TypeError, s\<lparr>keptAliveInSeconds := 0\<rparr>, [Launch])"
    if "browser s = None"
    using that assms
    by (simp add: Browser_fetch_def start_browser_def)
  show "need_launch w' (state_of (Browser_fetch e w url s))" if "browser s = None" for w'
    using that b by (simp add: need_launch_def)
  show "take 1 (trace_of (Browser_fetch e' w' url' (state_of (Browser_fetch e w url s)))) = [Launch]"
    if "str_match url' pattern = Some g'" "need_launch w' (state_of (Browser_fetch e w url s))"
    for e' w' url' g'
    using that by (rule fetch_launches_first)
qed

theorem launch_failure_keeps_field_witness:
  "str_match ''https://example.com/screenshots/bar'' pattern
     = Some [(''base'', ''https://example.com''), (''path'', ''/bar'')]
   \<and> need_launch w_no_launch fresh
   \<and> launch_result w_no_launch = None
   \<and> browser fresh = None
   \<and> Browser_fetch env0 w_no_launch ''https://example.com/screenshots/bar'' fresh
       = (Inl TypeError, fresh\<lparr>keptAliveInSeconds := 0\<rparr>, [Launch])
   \<and> browser (state_of (Browser_fetch env0 w_no_launch ''https://example.com/screenshots/bar'' fresh))
       = None
   \<and> take 1 (trace_of (Browser_fetch env0 w_ok ''https://example.com/screenshots/bar''
         (state_of (Browser_fetch env0 w_no_launch ''https://example.com/screenshots/bar'' fresh))))
       = [Launch]"
proof -
  have n: "need_launch w_no_launch fresh" and l: "launch_result w_no_launch = None"
    and b: "browser fresh = None"
    by (simp_all add: need_launch_def w_no_launch_def fresh_def)
  note T = launch_failure_keeps_field [OF match_bar n l, of env0]
  from T b have run: "Browser_fetch env0 w_no_launch ''https://example.com/screenshots/bar'' fresh
       = (Inl TypeError, fresh\<lparr>keptAliveInSeconds := 0\<rparr>, [Launch])"
    by blast
  from T have "browser (state_of (Browser_fetch env0 w_no_launch
        ''https://example.com/screenshots/bar'' fresh)) = browser fresh"
    by (rule conjunct1)
  with b have field: "browser (state_of (Browser_fetch env0 w_no_launch
        ''https://example.com/screenshots/bar'' fresh)) = None"
    by simp
  from T b have again: "need_launch w_ok (state_of (Browser_fetch env0 w_no_launch
        ''https://example.com/screenshots/bar'' fresh))"
    by blast
  from T match_bar again
  have "take 1 (trace_of (Browser_fetch env0 w_ok ''https://example.com/screenshots/bar''
         (state_of (Browser_fetch env0 w_no_launch ''https://example.com/screenshots/bar'' fresh))))
       = [Launch]"
    by blast
  with match_bar n l b run field show ?thesis by simp
qed


section \<open>The target URL and the defaults\<close>

text \<open>
  C5. The claim holds for a parameter list that is not empty, and fails for the empty one:
  the test \<^verbatim>\<open>params ? ... : null\<close> of line 68 is on an array, which is truthy also
  when it is empty, so the query is \<^verbatim>\<open>"?"\<close> and the filter of line 70 keeps it. For
  the request \<^verbatim>\<open>https://example.com/screenshots/bar\<close> with no configured parameters,
  the URL the page navigates to is \<^verbatim>\<open>https://example.com/bar?\<close>, with the question
  mark, and not \<^verbatim>\<open>https://example.com/bar\<close>.
\<close>

theorem empty_query_keeps_question_mark:
  "effective_url env0 ''https://example.com/screenshots/bar'' = Some ''https://example.com/bar?''
   \<and> Goto ''https://example.com/bar?''
       \<in> set (trace_of (Browser_fetch env0 w_ok ''https://example.com/screenshots/bar'' fresh))"
proof -
  have "effective_url env0 ''https://example.com/screenshots/bar'' = Some ''https://example.com/bar?''"
    by (simp add: effective_url_def match_bar parse_def params_of_def target_url_def env0_def)
  moreover have "Goto ''https://example.com/bar?''
       \<in> set (trace_of (Browser_fetch env0 w_ok ''https://example.com/screenshots/bar'' fresh))"
    by (simp add: first_render_ok trace_of_def)
  ultimately show ?thesis by simp
qed


text \<open>
  C9. A group that took no part in the match gets its default: format \<^verbatim>\<open>png\<close>, width
  1200, height 630, scale 1; the cache lifetime is always 604800 seconds, which is what
  the header \<^verbatim>\<open>Cache-Control\<close> of the response carries. The worked example: the request
  \<^verbatim>\<open>https://example.com/screenshot/600x400/foo/bar@2x.pdf?x=1\<close>, with no configured
  parameters, gives the target URL \<^verbatim>\<open>https://example.com/foo/bar?x=1\<close>, width 600,
  height 400, scale 2, format \<^verbatim>\<open>pdf\<close> and a lifetime of 604800 seconds.
\<close>

theorem defaults_and_example:
  "(map_of g ''format'' = None \<longrightarrow> p_format (parse e g) = ''png'')
   \<and> (map_of g ''width'' = None \<longrightarrow> p_width (parse e g) = 1200)
   \<and> (map_of g ''height'' = None \<longrightarrow> p_height (parse e g) = 630)
   \<and> (map_of g ''scale'' = None \<longrightarrow> p_scale (parse e g) = 1)
   \<and> p_maxage (parse e g) = 604800
   \<and> r_cache_control (make_response w (parse e g)) = ''public, max-age=604800''
   \<and> map_option (parse env0)
        (str_match ''https://example.com/screenshot/600x400/foo/bar@2x.pdf?x=1'' pattern)
      = Some \<lparr> p_base = Some ''https://example.com'', p_format = ''pdf'',
               p_path = Some ''/foo/bar'', p_width = 600, p_height = 400, p_maxage = 604800,
               p_scale = 2, p_params = [''x=1''], p_url = ''https://example.com/foo/bar?x=1'' \<rparr>"
proof -
  have ttl: "p_maxage (parse e g) = 604800"
    by (simp add: parse_def defaults_def Let_def)
  have "r_cache_control (make_response w (parse e g)) = ''public, max-age=604800''"
    by (simp add: make_response_def ttl show_maxage)
  moreover have "map_option (parse env0)
        (str_match ''https://example.com/screenshot/600x400/foo/bar@2x.pdf?x=1'' pattern)
      = Some \<lparr> p_base = Some ''https://example.com'', p_format = ''pdf'',
               p_path = Some ''/foo/bar'', p_width = 600, p_height = 400, p_maxage = 604800,
               p_scale = 2, p_params = [''x=1''], p_url = ''https://example.com/foo/bar?x=1'' \<rparr>"
    by (simp add: match_example parse_example)
  moreover have "map_of g ''format'' = None \<longrightarrow> p_format (parse e g) = ''png''"
    "map_of g ''width'' = None \<longrightarrow> p_width (parse e g) = 1200"
    "map_of g ''height'' = None \<longrightarrow> p_height (parse e g) = 630"
    "map_of g ''scale'' = None \<longrightarrow> p_scale (parse e g) = 1"
    by (simp_all add: parse_def defaults_def Let_def)
  ultimately show ?thesis using ttl by blast
qed

theorem defaults_and_example_witness:
  "map_of [(''base'', ''https://example.com''), (''path'', ''/bar'')] ''format'' = None
   \<and> map_of [(''base'', ''https://example.com''), (''path'', ''/bar'')] ''width'' = None
   \<and> map_of [(''base'', ''https://example.com''), (''path'', ''/bar'')] ''height'' = None
   \<and> map_of [(''base'', ''https://example.com''), (''path'', ''/bar'')] ''scale'' = None
   \<and> p_format (parse env0 [(''base'', ''https://example.com''), (''path'', ''/bar'')]) = ''png''
   \<and> p_width (parse env0 [(''base'', ''https://example.com''), (''path'', ''/bar'')]) = 1200
   \<and> p_height (parse env0 [(''base'', ''https://example.com''), (''path'', ''/bar'')]) = 630
   \<and> p_scale (parse env0 [(''base'', ''https://example.com''), (''path'', ''/bar'')]) = 1
   \<and> p_maxage (parse env0 [(''base'', ''https://example.com''), (''path'', ''/bar'')]) = 604800"
proof -
  have absent:
    "map_of [(''base'', ''https://example.com''), (''path'', ''/bar'')] ''format'' = None"
    "map_of [(''base'', ''https://example.com''), (''path'', ''/bar'')] ''width'' = None"
    "map_of [(''base'', ''https://example.com''), (''path'', ''/bar'')] ''height'' = None"
    "map_of [(''base'', ''https://example.com''), (''path'', ''/bar'')] ''scale'' = None"
    by simp_all
  from defaults_and_example [of "[(''base'', ''https://example.com''), (''path'', ''/bar'')]"
      env0 w_ok] absent
  show ?thesis by blast
qed


section \<open>Failures at the Worker's handler\<close>

text \<open>
  C6, as the claim states it, does not hold. The request URL is matched inside
  \<^verbatim>\<open>Browser.fetch\<close>; for a URL that does not match, \<^verbatim>\<open>.groups\<close> is read from
  \<^verbatim>\<open>null\<close> and a TypeError is thrown, which nothing catches. For the request
  \<^verbatim>\<open>https://example.com/notscreenshot/bar\<close> the Worker's handler fails with that
  TypeError: it returns no response, and the failure is not a client error.
\<close>

theorem malformed_url_counterexample:
  "str_match ''https://example.com/notscreenshot/bar'' pattern = None
   \<and> res (fetch env0 w_ok ''https://example.com/notscreenshot/bar'' Map.empty fresh) = Inl TypeError
   \<and> \<not> is_client_error
         (res (fetch env0 w_ok ''https://example.com/notscreenshot/bar'' Map.empty fresh))"
  by (simp add: match_malformed fetch_def Browser_fetch_def)

text \<open>
  C6, amended. For every request URL that does not match the pattern, \<^verbatim>\<open>Browser.fetch\<close>
  fails with a TypeError before it makes any call (no launch, no page, no alarm) and leaves
  its state as it was. When the cache has no entry for the URL, the Worker's handler fails
  with the same TypeError: it builds no response, so the outcome is a server error and not
  a client error; it has asked the cache and the \<^verbatim>\<open>Browser\<close> object only, no engine call
  was made, and the cache is unchanged.
\<close>

theorem unmatched_url_fails:
  assumes "str_match url pattern = None"
  shows "Browser_fetch e w url s = (Inl TypeError, s, [])
       \<and> (c url = None \<longrightarrow>
            res (fetch e w url c s) = Inl TypeError
          \<and> \<not> is_client_error (res (fetch e w url c s))
          \<and> is_server_error (res (fetch e w url c s))
          \<and> calls (fetch e w url c s) = [CacheMatch url, StubFetch url]
          \<and> engine_calls (fetch e w url c s) = []
          \<and> cache_after (fetch e w url c s) = c
          \<and> state_after (fetch e w url c s) = s)"
  using assms by (simp add: fetch_def Browser_fetch_def)

theorem unmatched_url_fails_witness:
  "str_match ''https://example.com/notscreenshot/bar'' pattern = None
   \<and> Map.empty ''https://example.com/notscreenshot/bar'' = (None :: response option)
   \<and> Browser_fetch env0 w_ok ''https://example.com/notscreenshot/bar'' fresh
       = (Inl TypeError, fresh, [])
   \<and> res (fetch env0 w_ok ''https://example.com/notscreenshot/bar'' Map.empty fresh)
       = Inl TypeError
   \<and> is_server_error
        (res (fetch env0 w_ok ''https://example.com/notscreenshot/bar'' Map.empty fresh))
   \<and> engine_calls (fetch env0 w_ok ''https://example.com/notscreenshot/bar'' Map.empty fresh)
       = []"
  using unmatched_url_fails [OF match_malformed, of env0 w_ok fresh Map.empty] match_malformed
  by simp


text \<open>
  C7. When \<^verbatim>\<open>Browser.fetch\<close> fails, the Worker's handler fails with the same error (the
  exception leaves the handler, which the runtime answers with a server error), the
  handler has made no \<^verbatim>\<open>cache.put\<close> call and the cache is unchanged. Every
  \<^verbatim>\<open>cache.put\<close> call the handler makes is for the request URL, after a cache miss, with
  the response of a completed render, which has status 200 and is the response returned.
  The cache after the handler is the cache before, or the cache before with that response
  stored under the request URL.
\<close>

theorem render_errors_not_cached:
  "(\<forall>err. c url = None \<longrightarrow> fst (Browser_fetch e w url s) = Inl err \<longrightarrow>
        res (fetch e w url c s) = Inl err
      \<and> is_server_error (res (fetch e w url c s))
      \<and> calls (fetch e w url c s) = [CacheMatch url, StubFetch url]
      \<and> cache_after (fetch e w url c s) = c)
   \<and> (\<forall>k v. CachePut k v \<in> set (calls (fetch e w url c s)) \<longrightarrow>
        k = url \<and> c url = None \<and> fst (Browser_fetch e w url s) = Inr v
        \<and> res (fetch e w url c s) = Inr v \<and> r_status v = 200)
   \<and> (cache_after (fetch e w url c s) = c
       \<or> (\<exists>v. fst (Browser_fetch e w url s) = Inr v \<and> cache_after (fetch e w url c s) = c(url \<mapsto> v)))"
proof -
  obtain r s' t where out: "Browser_fetch e w url s = (r, s', t)"
    by (cases "Browser_fetch e w url s") auto
  have status: "r_status v = 200" if "r = Inr v" for v
    using Browser_fetch_cases [OF out] that
    by (auto simp: render_defs make_response_def split: if_splits option.splits)
  show ?thesis
  proof (cases "c url")
    case None
    from fetch_miss [where c = c, OF out None] status None show ?thesis
      by (cases r) (auto simp: out)
  next
    case (Some hit)
    then show ?thesis by (simp add: fetch_def)
  qed
qed

theorem render_errors_not_cached_witness:
  "Map.empty ''https://example.com/screenshots/bar'' = (None :: response option)
   \<and> fst (Browser_fetch env0 w_goto_fails ''https://example.com/screenshots/bar'' fresh)
       = Inl (Thrown (Goto ''https://example.com/bar?''))
   \<and> res (fetch env0 w_goto_fails ''https://example.com/screenshots/bar'' Map.empty fresh)
       = Inl (Thrown (Goto ''https://example.com/bar?''))
   \<and> is_server_error
        (res (fetch env0 w_goto_fails ''https://example.com/screenshots/bar'' Map.empty fresh))
   \<and> calls (fetch env0 w_goto_fails ''https://example.com/screenshots/bar'' Map.empty fresh)
       = [CacheMatch ''https://example.com/screenshots/bar'',
          StubFetch ''https://example.com/screenshots/bar'']
   \<and> cache_after (fetch env0 w_goto_fails ''https://example.com/screenshots/bar'' Map.empty fresh)
       = Map.empty"
proof -
  have failed: "fst (Browser_fetch env0 w_goto_fails ''https://example.com/screenshots/bar'' fresh)
       = Inl (Thrown (Goto ''https://example.com/bar?''))"
    by (simp add: goto_fails_run)
  from render_errors_not_cached [of Map.empty "''https://example.com/screenshots/bar''"
      env0 w_goto_fails fresh] failed
  show ?thesis by simp
qed


text \<open>
  C8. When the cache holds an entry for the request URL, the handler returns that entry
  unchanged; it asks nothing but the cache (no call to the \<^verbatim>\<open>Browser\<close> object, which
  holds the parser and the session manager), makes no engine call, and leaves the cache
  and the state of the \<^verbatim>\<open>Browser\<close> object as they were.
\<close>

theorem cache_hit_short_circuits:
  assumes "c url = Some r"
  shows "res (fetch e w url c s) = Inr r
       \<and> calls (fetch e w url c s) = [CacheMatch url]
       \<and> engine_calls (fetch e w url c s) = []
       \<and> cache_after (fetch e w url c s) = c
       \<and> state_after (fetch e w url c s) = s"
  using assms by (simp add: fetch_def)

theorem cache_hit_short_circuits_witness:
  "[''https://example.com/screenshots/bar'' \<mapsto> cached_page]
      ''https://example.com/screenshots/bar'' = Some cached_page
   \<and> res (fetch env0 w_ok ''https://example.com/screenshots/bar''
          [''https://example.com/screenshots/bar'' \<mapsto> cached_page] fresh) = Inr cached_page
   \<and> calls (fetch env0 w_ok ''https://example.com/screenshots/bar''
          [''https://example.com/screenshots/bar'' \<mapsto> cached_page] fresh)
       = [CacheMatch ''https://example.com/screenshots/bar'']
   \<and> engine_calls (fetch env0 w_ok ''https://example.com/screenshots/bar''
          [''https://example.com/screenshots/bar'' \<mapsto> cached_page] fresh) = []"
proof -
  have hit: "[''https://example.com/screenshots/bar'' \<mapsto> cached_page]
      ''https://example.com/screenshots/bar'' = Some cached_page"
    by simp
  show ?thesis
    using hit cache_hit_short_circuits [of "[''https://example.com/screenshots/bar'' \<mapsto> cached_page]"
      "''https://example.com/screenshots/bar''" cached_page env0 w_ok fresh]
    by simp
qed

section \<open>The forwarded access headers\<close>

text \<open>
  C10. A configuration value is set when it is truthy (defined and not empty), which is
  what line 90 tests. \<^verbatim>\<open>page.setExtraHTTPHeaders\<close> is called only when both
  \<^verbatim>\<open>CF_ACCESS_CLIENT_ID\<close> and \<^verbatim>\<open>CF_ACCESS_CLIENT_SECRET\<close> are set, and then with
  exactly these two values; it is called whenever both are set and the page was created.
  When one of the two is not set (so also when exactly one is), no such call is made.
\<close>

theorem access_headers_iff_both:
  "(\<forall>a b. SetExtraHTTPHeaders a b \<in> set (trace_of (Browser_fetch e w url s)) \<longrightarrow>
        CF_ACCESS_CLIENT_ID e = Some a \<and> CF_ACCESS_CLIENT_SECRET e = Some b
        \<and> truthy (CF_ACCESS_CLIENT_ID e) \<and> truthy (CF_ACCESS_CLIENT_SECRET e))
   \<and> (NewPage \<in> set (trace_of (Browser_fetch e w url s)) \<longrightarrow> \<not> throws w NewPage \<longrightarrow>
        truthy (CF_ACCESS_CLIENT_ID e) \<longrightarrow> truthy (CF_ACCESS_CLIENT_SECRET e) \<longrightarrow>
        SetExtraHTTPHeaders (text_of (CF_ACCESS_CLIENT_ID e)) (text_of (CF_ACCESS_CLIENT_SECRET e))
          \<in> set (trace_of (Browser_fetch e w url s)))
   \<and> (\<not> (truthy (CF_ACCESS_CLIENT_ID e) \<and> truthy (CF_ACCESS_CLIENT_SECRET e)) \<longrightarrow>
        (\<forall>a b. SetExtraHTTPHeaders a b \<notin> set (trace_of (Browser_fetch e w url s))))"
proof -
  obtain r s' t where out: "Browser_fetch e w url s = (r, s', t)"
    by (cases "Browser_fetch e w url s") auto
  note cs = Browser_fetch_cases [OF out]
  have only_if: "CF_ACCESS_CLIENT_ID e = Some a \<and> CF_ACCESS_CLIENT_SECRET e = Some b
        \<and> truthy (CF_ACCESS_CLIENT_ID e) \<and> truthy (CF_ACCESS_CLIENT_SECRET e)"
    if h: "SetExtraHTTPHeaders a b \<in> set t" for a b
  proof -
    from cs h start_browser_no_header [of a b w s] obtain g hd where
      "render e w (parse e g) hd ((fst (start_browser w s))\<lparr>keptAliveInSeconds := 0\<rparr>)
             (snd (start_browser w s)) = (r, s', t)"
      by auto
    from render_headers_only_if [OF this h start_browser_no_header] show ?thesis by simp
  qed
  have "if": "SetExtraHTTPHeaders (text_of (CF_ACCESS_CLIENT_ID e)) (text_of (CF_ACCESS_CLIENT_SECRET e)) \<in> set t"
    if p: "NewPage \<in> set t" and ok: "\<not> throws w NewPage"
      and both: "truthy (CF_ACCESS_CLIENT_ID e)" "truthy (CF_ACCESS_CLIENT_SECRET e)"
  proof -
    from cs p start_browser_no_page [of w s] obtain g hd where
      "render e w (parse e g) hd ((fst (start_browser w s))\<lparr>keptAliveInSeconds := 0\<rparr>)
             (snd (start_browser w s)) = (r, s', t)"
      by auto
    from render_headers_if [OF this p start_browser_no_page ok both] show ?thesis .
  qed
  have none: "SetExtraHTTPHeaders a b \<notin> set t"
    if "\<not> (truthy (CF_ACCESS_CLIENT_ID e) \<and> truthy (CF_ACCESS_CLIENT_SECRET e))" for a b
    using only_if [of a b] that by blast
  have tr: "trace_of (Browser_fetch e w url s) = t"
    by (simp add: out trace_of_def)
  show ?thesis
    unfolding tr using only_if "if" none by blast
qed

theorem access_headers_iff_both_witness:
  "truthy (CF_ACCESS_CLIENT_ID env_access)
   \<and> truthy (CF_ACCESS_CLIENT_SECRET env_access)
   \<and> \<not> throws w_ok NewPage
   \<and> NewPage \<in> set (trace_of
        (Browser_fetch env_access w_ok ''https://example.com/screenshots/bar'' fresh))
   \<and> SetExtraHTTPHeaders ''id'' ''secret'' \<in> set (trace_of
        (Browser_fetch env_access w_ok ''https://example.com/screenshots/bar'' fresh))
   \<and> truthy (CF_ACCESS_CLIENT_ID env_id_only)
   \<and> \<not> truthy (CF_ACCESS_CLIENT_SECRET env_id_only)
   \<and> (\<forall>a b. SetExtraHTTPHeaders a b \<notin> set (trace_of
        (Browser_fetch env_id_only w_ok ''https://example.com/screenshots/bar'' fresh)))"
proof -
  have both: "truthy (CF_ACCESS_CLIENT_ID env_access)" "truthy (CF_ACCESS_CLIENT_SECRET env_access)"
    "text_of (CF_ACCESS_CLIENT_ID env_access) = ''id''"
    "text_of (CF_ACCESS_CLIENT_SECRET env_access) = ''secret''"
    by (simp_all add: env_access_def)
  have one: "truthy (CF_ACCESS_CLIENT_ID env_id_only)"
    "\<not> truthy (CF_ACCESS_CLIENT_SECRET env_id_only)"
    by (simp_all add: env_id_only_def)
  have page: "\<not> throws w_ok NewPage"
    "NewPage \<in> set (trace_of
        (Browser_fetch env_access w_ok ''https://example.com/screenshots/bar'' fresh))"
    by (simp add: w_ok_def) (simp add: access_run_trace)
  from access_headers_iff_both [of env_access w_ok "''https://example.com/screenshots/bar''" fresh]
    both page
  have applied: "SetExtraHTTPHeaders ''id'' ''secret'' \<in> set (trace_of
        (Browser_fetch env_access w_ok ''https://example.com/screenshots/bar'' fresh))"
    by simp
  from access_headers_iff_both [of env_id_only w_ok "''https://example.com/screenshots/bar''" fresh]
    one
  have "\<forall>a b. SetExtraHTTPHeaders a b \<notin> set (trace_of
        (Browser_fetch env_id_only w_ok ''https://example.com/screenshots/bar'' fresh))"
    by blast
  with both one page applied show ?thesis by simp
qed


end
